theory Spec2Isabelle
  imports Complex_Main
begin

section \<open>The sell screen of ln-exchange: \<open>sell.process.tsx\<close>\<close>

text \<open>
  The component \<open>SellTabContentProcess\<close> holds six pieces of React state, a form with four
  fields, a debounced copy of the form and four effects; it starts three kinds of
  asynchronous calls (the quote request \<open>receiveFor\<close>, the account update \<open>updateAccount\<close>
  and \<open>sendPayment\<close>). The model is a record of that state, one function per effect and
  per promise callback, and a step function over the events that drive the component
  (user input, a prop change, the debounce timer, a promise settling).
\<close>

subsection \<open>JavaScript numbers\<close>

text \<open>
  A JavaScript number is NaN, an infinity or a finite value. Every finite double is a
  rational, and the component only compares numbers and prints them, so finite values are
  rationals here (both zeros are \<open>Fin 0\<close>).
\<close>

datatype jsnum = NaN | NegInf | Fin rat | PosInf

text \<open>\<open>a > b\<close>: false as soon as one side is NaN.\<close>

fun js_gt :: "jsnum \<Rightarrow> jsnum \<Rightarrow> bool" where
  "js_gt (Fin a) (Fin b) = (b < a)"
| "js_gt PosInf (Fin b) = True"
| "js_gt PosInf NegInf = True"
| "js_gt (Fin a) NegInf = True"
| "js_gt a b = False"

text \<open>Decimal digits of a natural number.\<close>

fun natToString :: "nat \<Rightarrow> string" where
  "natToString n =
     (if n < 10 then [char_of (48 + n)]
      else natToString (n div 10) @ [char_of (48 + n mod 10)])"

declare natToString.simps [simp del]

subsection \<open>Data of the libraries the component uses\<close>

text \<open>
  \<open>Fiat\<close>, \<open>Asset\<close>, \<open>BankAccount\<close>, \<open>Sell\<close> and \<open>ApiError\<close> are declared in
  \<open>@dfx.swiss/react\<close>; only the fields the component reads are kept.
\<close>

record Fiat =
  fiat_id :: nat
  fiat_name :: string

record Asset =
  asset_id :: nat
  asset_name :: string

record BankAccount =
  bank_id :: nat
  iban :: string
  preferredCurrency :: "Fiat option"

record Sell =
  estimatedAmount :: jsnum
  fee :: jsnum
  minFeeTarget :: jsnum
  minVolume :: jsnum
  paymentRequest :: "string option"

record ApiError =
  statusCode :: int
  message :: string

text \<open>\<open>DeepPartial<FormData>\<close>: what \<open>useWatch\<close> returns, every field possibly undefined.\<close>

record PartialFormData =
  p_bankAccount :: "BankAccount option"
  p_asset :: "Asset option"
  p_currency :: "Fiat option"
  p_amount :: "string option"

text \<open>\<open>FormData\<close>: every field present.\<close>

record FormData =
  bankAccount :: BankAccount
  asset :: Asset
  currency :: Fiat
  amount :: string

record PaymentInformation =
  pi_estimatedAmount :: string
  pi_fee :: string
  minFee :: "string option"
  pi_paymentRequest :: string

subsection \<open>What the hooks and the runtime provide\<close>

text \<open>
  The functions the component gets from its hooks and from \<open>Utils\<close> are not part of the
  file; they are parameters of the model. \<open>stringToNumber\<close> is \<open>Number\<close> on a non-empty
  string and \<open>fractionToString\<close> prints the finite numbers that are not integers below
  \<open>10^21\<close>; both belong to the JavaScript runtime.
\<close>

record hooks =
  isAllowedToSell :: "jsnum \<Rightarrow> bool"
  formatAmountCrypto :: "jsnum \<Rightarrow> string"
  toSymbol :: "Fiat \<Rightarrow> string"
  stringToNumber :: "string \<Rightarrow> jsnum"
  fractionToString :: "rat \<Rightarrow> string"

text \<open>\<open>Number(v)\<close> for a string or undefined: undefined is NaN, the empty string is 0.\<close>

definition Number_of :: "hooks \<Rightarrow> string option \<Rightarrow> jsnum" where
  "Number_of h v =
     (case v of
        None \<Rightarrow> NaN
      | Some s \<Rightarrow> if s = [] then Fin 0 else stringToNumber h s)"

text \<open>
  A number inside a template literal: \<open>NaN\<close>, \<open>Infinity\<close>, \<open>-Infinity\<close>, and the decimal
  digits of an integer of absolute value below \<open>10^21\<close>.
\<close>

definition numberToString :: "hooks \<Rightarrow> jsnum \<Rightarrow> string" where
  "numberToString h n =
     (case n of
        NaN \<Rightarrow> ''NaN''
      | PosInf \<Rightarrow> ''Infinity''
      | NegInf \<Rightarrow> ''-Infinity''
      | Fin r \<Rightarrow>
          if r = of_int \<lfloor>r\<rfloor> \<and> \<bar>r\<bar> < 10 ^ 21
          then (if r < 0 then ''-'' else '''') @ natToString (nat \<bar>\<lfloor>r\<rfloor>\<bar>)
          else fractionToString h r)"

text \<open>A string is truthy when it is defined and not empty.\<close>

definition truthy :: "string option \<Rightarrow> bool" where
  "truthy v = (case v of None \<Rightarrow> False | Some s \<Rightarrow> s \<noteq> [])"

text \<open>The sign U+2248 (almost equal to), as the three bytes of its UTF-8 encoding.\<close>

definition almostEqual :: string where
  "almostEqual = [CHR 0xE2, CHR 0x89, CHR 0x88]"

subsection \<open>The pure functions of the component\<close>

text \<open>
  \<open>validateData\<close> (lines 139-143): the snapshot is returned, typed as \<open>FormData\<close>, when
  its amount is a number above 0 and its asset, bank account and currency are set.
\<close>

definition validateData :: "hooks \<Rightarrow> PartialFormData option \<Rightarrow> FormData option" where
  "validateData h d =
     (case d of
        None \<Rightarrow> None
      | Some p \<Rightarrow>
          if js_gt (Number_of h (p_amount p)) (Fin 0) then
            (case (p_asset p, p_bankAccount p, p_currency p, p_amount p) of
               (Some a, Some b, Some c, Some m) \<Rightarrow>
                 Some \<lparr>bankAccount = b, asset = a, currency = c, amount = m\<rparr>
             | _ \<Rightarrow> None)
          else None)"

text \<open>
  \<open>toPaymentInformation\<close> (lines 162-171). \<open>d\<close> is the \<open>data\<close> of the render whose
  closure the function belongs to.
\<close>

definition toPaymentInformation ::
  "hooks \<Rightarrow> PartialFormData \<Rightarrow> Sell option \<Rightarrow> PaymentInformation option" where
  "toPaymentInformation h d sell =
     (case sell of
        None \<Rightarrow> None
      | Some q \<Rightarrow>
          Some \<lparr>pi_estimatedAmount =
                  almostEqual @ '' '' @ numberToString h (estimatedAmount q) @ '' ''
                  @ (case p_currency d of None \<Rightarrow> '''' | Some c \<Rightarrow> fiat_name c)
                  @ '' (incl. DFX fees)'',
                pi_fee = numberToString h (fee q) @ '' %'',
                minFee =
                  (if js_gt (minFeeTarget q) (Fin 0) then
                     (case p_currency d of
                        None \<Rightarrow> None
                      | Some c \<Rightarrow> Some (numberToString h (minFeeTarget q) @ toSymbol h c))
                   else None),
                pi_paymentRequest =
                  (case paymentRequest q of None \<Rightarrow> '''' | Some r \<Rightarrow> r)\<rparr>)"

subsection \<open>The state of the screen\<close>

text \<open>
  A call in flight keeps what its callbacks will read from the closure of the render that
  started it. For the quote request these are the arguments of \<open>receiveFor\<close>, the asset
  whose name goes into the error message and that render's \<open>data\<close>; for the account
  update, the arguments of \<open>updateAccount\<close> and the payment request that \<open>handleNext\<close>
  sends afterwards.
\<close>

record quote_call =
  q_iban :: string
  q_currency :: Fiat
  q_amount :: jsnum
  q_asset :: Asset
  q_data :: PartialFormData

record account_call =
  u_id :: nat
  u_preferredCurrency :: "Fiat option"
  u_paymentRequest :: string

text \<open>
  \<open>data\<close> is the form as \<open>useWatch\<close> shows it (\<open>selectedBankAccount\<close> and
  \<open>enteredAmount\<close> are its fields), \<open>debounced\<close> is \<open>useDebounce(data, 500)\<close>,
  \<open>address\<close> comes from the wallet context; the six \<open>useState\<close> values follow, and then
  the calls that have not settled yet, oldest first.
\<close>

record screen =
  data :: PartialFormData
  debounced :: PartialFormData
  address :: "string option"
  customAmountError :: "string option"
  isLoading :: bool
  isCompleting :: bool
  isCompleted :: bool
  kycRequired :: bool
  paymentInfo :: "PaymentInformation option"
  quoteCalls :: "quote_call list"
  accountCalls :: "account_call list"
  paymentCalls :: "string list"

text \<open>Line 71: \<open>validatedData\<close> is recomputed from the debounced snapshot in every render.\<close>

definition validatedData :: "hooks \<Rightarrow> screen \<Rightarrow> FormData option" where
  "validatedData h s = validateData h (Some (debounced s))"

subsection \<open>The effects\<close>

text \<open>Lines 77-82, run when the \<open>asset\<close> prop changes to \<open>a\<close>.\<close>

definition assetEffect :: "Asset option \<Rightarrow> screen \<Rightarrow> screen" where
  "assetEffect a s =
     (let s1 = (case a of
                  None \<Rightarrow> s
                | Some x \<Rightarrow> s\<lparr>data := (data s)\<lparr>p_asset := Some x\<rparr>\<rparr>);
          s2 = s1\<lparr>data := (data s1)\<lparr>p_amount := Some ''''\<rparr>\<rparr>;
          s3 = s2\<lparr>isCompleting := False\<rparr>
      in s3\<lparr>isCompleted := False\<rparr>)"

text \<open>Lines 84-87, run when the selected bank account changes.\<close>

definition bankAccountEffect :: "screen \<Rightarrow> screen" where
  "bankAccountEffect s =
     (case p_bankAccount (data s) of
        None \<Rightarrow> s
      | Some b \<Rightarrow>
          (case preferredCurrency b of
             None \<Rightarrow> s
           | Some c \<Rightarrow> s\<lparr>data := (data s)\<lparr>p_currency := Some c\<rparr>\<rparr>))"

text \<open>Lines 89-94, run when the entered amount changes.\<close>

definition amountEffect :: "screen \<Rightarrow> screen" where
  "amountEffect s =
     (if \<not> truthy (p_amount (data s))
      then s\<lparr>customAmountError := None, kycRequired := False\<rparr>
      else s)"

text \<open>
  Lines 96-109, run when \<open>validatedData\<close> changes: without valid data the payment
  information is dropped, otherwise the loading flag is set and a quote is requested.
\<close>

definition quoteEffect :: "hooks \<Rightarrow> screen \<Rightarrow> screen" where
  "quoteEffect h s =
     (case validatedData h s of
        None \<Rightarrow> s\<lparr>paymentInfo := None\<rparr>
      | Some v \<Rightarrow>
          s\<lparr>isLoading := True,
            quoteCalls := quoteCalls s @
              [\<lparr>q_iban = iban (bankAccount v), q_currency = currency v,
                q_amount = Number_of h (Some (amount v)), q_asset = asset v,
                q_data = data s\<rparr>]\<rparr>)"

subsection \<open>The callbacks of the quote request\<close>

text \<open>\<open>checkForMinDeposit\<close> (lines 127-137): the value it returns and the state it leaves.\<close>

definition checkForMinDeposit ::
  "hooks \<Rightarrow> Sell \<Rightarrow> jsnum \<Rightarrow> string \<Rightarrow> screen \<Rightarrow> Sell option \<times> screen" where
  "checkForMinDeposit h sell amt cur s =
     (if js_gt (minVolume sell) amt then
        (None,
         s\<lparr>customAmountError :=
             Some (''Entered amount is below minimum deposit of ''
                   @ formatAmountCrypto h (minVolume sell) @ '' '' @ cur)\<rparr>)
      else (Some sell, s\<lparr>customAmountError := None\<rparr>))"

text \<open>
  Lines 111-114: \<open>dataValid\<close> is true in the closure of a render that requested a quote;
  \<open>Number(value?.estimatedAmount)\<close> is NaN when the value is undefined.
\<close>

definition kycStage :: "hooks \<Rightarrow> Sell option \<Rightarrow> screen \<Rightarrow> screen" where
  "kycStage h v s =
     s\<lparr>kycRequired :=
         True \<and> \<not> isAllowedToSell h (case v of None \<Rightarrow> NaN | Some q \<Rightarrow> estimatedAmount q)\<rparr>"

text \<open>
  Lines 110-116 and 122-124: the chain of \<open>then\<close> callbacks of a fulfilled request,
  followed by \<open>finally\<close>.
\<close>

definition quoteResolved :: "hooks \<Rightarrow> quote_call \<Rightarrow> Sell \<Rightarrow> screen \<Rightarrow> screen" where
  "quoteResolved h c sell s =
     (let (v, s1) = checkForMinDeposit h sell (q_amount c) (asset_name (q_asset c)) s;
          s2 = kycStage h v s1;
          s3 = s2\<lparr>paymentInfo := toPaymentInformation h (q_data c) v\<rparr>
      in s3\<lparr>isLoading := False\<rparr>)"

text \<open>Lines 117-124: \<open>catch\<close> and \<open>finally\<close> of a rejected request.\<close>

definition quoteRejected :: "ApiError \<Rightarrow> screen \<Rightarrow> screen" where
  "quoteRejected err s =
     (let s1 = (if statusCode err = 400 \<and> message err = ''Ident data incomplete''
                then s\<lparr>kycRequired := True\<rparr> else s)
      in s1\<lparr>isLoading := False\<rparr>)"

subsection \<open>Submission\<close>

text \<open>
  Line 154, the guard of \<open>handleNext\<close>:
  \<open>!validatedData || !validatedData.amount || !validatedData.asset || !address || !paymentInfo\<close>.
  The asset of a validated snapshot is an object, and an object is always truthy.
\<close>

definition submitBlocked :: "hooks \<Rightarrow> screen \<Rightarrow> bool" where
  "submitBlocked h s =
     (case validatedData h s of
        None \<Rightarrow> True
      | Some v \<Rightarrow>
          \<not> truthy (Some (amount v)) \<or> False \<or> \<not> truthy (address s) \<or> paymentInfo s = None)"

text \<open>
  \<open>handleNext\<close> (lines 153-157) up to the \<open>await\<close>. \<open>updateBankAccount\<close>
  (lines 145-147) reads \<open>selectedBankAccount.id\<close>: without a selected account that
  throws, the promise of \<open>handleNext\<close> is rejected and nothing is called.
\<close>

definition handleNext :: "hooks \<Rightarrow> screen \<Rightarrow> screen" where
  "handleNext h s =
     (if submitBlocked h s then s
      else
        (case paymentInfo s of
           None \<Rightarrow> s
         | Some p \<Rightarrow>
             (let s1 = s\<lparr>isCompleting := True\<rparr>
              in case p_bankAccount (data s) of
                   None \<Rightarrow> s1
                 | Some b \<Rightarrow>
                     s1\<lparr>accountCalls := accountCalls s1 @
                          [\<lparr>u_id = bank_id b,
                            u_preferredCurrency = p_currency (data s),
                            u_paymentRequest = pi_paymentRequest p\<rparr>]\<rparr>)))"

text \<open>Line 157: the account update is done, \<open>sendPayment\<close> is called.\<close>

definition updateResolved :: "account_call \<Rightarrow> screen \<Rightarrow> screen" where
  "updateResolved u s = s\<lparr>paymentCalls := paymentCalls s @ [u_paymentRequest u]\<rparr>"

text \<open>Line 156: the \<open>await\<close> throws; \<open>handleNext\<close> has no handler and stops there.\<close>

definition updateRejected :: "account_call \<Rightarrow> screen \<Rightarrow> screen" where
  "updateRejected u s = s"

text \<open>Lines 158-159: \<open>then\<close> and \<open>finally\<close> of the payment.\<close>

definition sendResolved :: "screen \<Rightarrow> screen" where
  "sendResolved s = (s\<lparr>isCompleted := True\<rparr>)\<lparr>isCompleting := False\<rparr>"

definition sendRejected :: "screen \<Rightarrow> screen" where
  "sendRejected s = s\<lparr>isCompleting := False\<rparr>"

text \<open>
  Lines 180-285: the form is rendered when neither flag of the phase is set, and inside
  it the payment details and the button that calls \<open>handleNext\<close> under
  \<open>paymentInfo && !kycRequired\<close>.
\<close>

definition showsPaymentInfo :: "screen \<Rightarrow> bool" where
  "showsPaymentInfo s =
     (\<not> isCompleting s \<and> \<not> isCompleted s \<and> paymentInfo s \<noteq> None \<and> \<not> kycRequired s)"

subsection \<open>The events that drive the screen\<close>

text \<open>
  An event is what reaches the component from outside: the parent passes another
  \<open>asset\<close>, the user picks a bank account or a currency or types an amount, the wallet
  context changes its address, the debounce timer fires, the button is clicked, or one
  of the calls in flight settles (the number is its position among the calls of its
  kind). The calls settle in any order: nothing in the component cancels or orders them.
\<close>

datatype event =
    AssetProp "Asset option"
  | SelectBankAccount BankAccount
  | SelectCurrency Fiat
  | EnterAmount string
  | WalletAddress "string option"
  | DebounceFire
  | QuoteResolves nat Sell
  | QuoteRejects nat ApiError
  | ClickNext
  | UpdateResolves nat
  | UpdateRejects nat
  | SendResolves nat
  | SendRejects nat

definition withoutNth :: "nat \<Rightarrow> 'a list \<Rightarrow> 'a list" where
  "withoutNth i xs = take i xs @ drop (Suc i) xs"

text \<open>An effect runs after a render in which its dependency has changed.\<close>

definition whenAmountChanged :: "string option \<Rightarrow> screen \<Rightarrow> screen" where
  "whenAmountChanged before s = (if p_amount (data s) \<noteq> before then amountEffect s else s)"

text \<open>
  The timer of \<open>useDebounce\<close> puts the current \<open>data\<close> into the debounced state;
  \<open>validatedData\<close> is that new object or undefined, so it has changed unless it was
  undefined and still is.
\<close>

definition debounceFire :: "hooks \<Rightarrow> screen \<Rightarrow> screen" where
  "debounceFire h s =
     (let s1 = s\<lparr>debounced := data s\<rparr>
      in if validatedData h s = None \<and> validatedData h s1 = None then s1
         else quoteEffect h s1)"

fun step :: "hooks \<Rightarrow> event \<Rightarrow> screen \<Rightarrow> screen" where
  "step h (AssetProp a) s = whenAmountChanged (p_amount (data s)) (assetEffect a s)"
| "step h (SelectBankAccount b) s =
     (if p_bankAccount (data s) = Some b then s
      else bankAccountEffect (s\<lparr>data := (data s)\<lparr>p_bankAccount := Some b\<rparr>\<rparr>))"
| "step h (SelectCurrency c) s = s\<lparr>data := (data s)\<lparr>p_currency := Some c\<rparr>\<rparr>"
| "step h (EnterAmount m) s =
     whenAmountChanged (p_amount (data s)) (s\<lparr>data := (data s)\<lparr>p_amount := Some m\<rparr>\<rparr>)"
| "step h (WalletAddress w) s = s\<lparr>address := w\<rparr>"
| "step h DebounceFire s = debounceFire h s"
| "step h (QuoteResolves i sell) s =
     (if i < length (quoteCalls s)
      then quoteResolved h (quoteCalls s ! i) sell
             (s\<lparr>quoteCalls := withoutNth i (quoteCalls s)\<rparr>)
      else s)"
| "step h (QuoteRejects i err) s =
     (if i < length (quoteCalls s)
      then quoteRejected err (s\<lparr>quoteCalls := withoutNth i (quoteCalls s)\<rparr>)
      else s)"
| "step h ClickNext s = (if showsPaymentInfo s then handleNext h s else s)"
| "step h (UpdateResolves i) s =
     (if i < length (accountCalls s)
      then updateResolved (accountCalls s ! i)
             (s\<lparr>accountCalls := withoutNth i (accountCalls s)\<rparr>)
      else s)"
| "step h (UpdateRejects i) s =
     (if i < length (accountCalls s)
      then updateRejected (accountCalls s ! i)
             (s\<lparr>accountCalls := withoutNth i (accountCalls s)\<rparr>)
      else s)"
| "step h (SendResolves i) s =
     (if i < length (paymentCalls s)
      then sendResolved (s\<lparr>paymentCalls := withoutNth i (paymentCalls s)\<rparr>)
      else s)"
| "step h (SendRejects i) s =
     (if i < length (paymentCalls s)
      then sendRejected (s\<lparr>paymentCalls := withoutNth i (paymentCalls s)\<rparr>)
      else s)"

fun run :: "hooks \<Rightarrow> event list \<Rightarrow> screen \<Rightarrow> screen" where
  "run h [] s = s"
| "run h (ev # evs) s = run h evs (step h ev s)"

text \<open>
  Lines 58-70: the first render, with the initial values of \<open>useState\<close> and the asset as
  the only default value of the form; then the four effects in the order of the file.
\<close>

definition firstRender :: "Asset option \<Rightarrow> string option \<Rightarrow> screen" where
  "firstRender a w =
     \<lparr>data = \<lparr>p_bankAccount = None, p_asset = a, p_currency = None, p_amount = None\<rparr>,
      debounced = \<lparr>p_bankAccount = None, p_asset = a, p_currency = None, p_amount = None\<rparr>,
      address = w, customAmountError = None, isLoading = False, isCompleting = False,
      isCompleted = False, kycRequired = False, paymentInfo = None,
      quoteCalls = [], accountCalls = [], paymentCalls = []\<rparr>"

definition mount :: "hooks \<Rightarrow> Asset option \<Rightarrow> string option \<Rightarrow> screen" where
  "mount h a w =
     quoteEffect h (amountEffect (bankAccountEffect (assetEffect a (firstRender a w))))"

text \<open>The states the screen can be in: after mounting, and after any event.\<close>

inductive reachable :: "hooks \<Rightarrow> screen \<Rightarrow> bool" for h :: hooks where
  mounted: "reachable h (mount h a w)"
| stepped: "reachable h s \<Longrightarrow> reachable h (step h ev s)"

subsection \<open>Sample data\<close>

text \<open>
  One instance of the parameters and the values of the scenarios of the specification.
  \<open>decimalToNumber\<close> is \<open>Number\<close> on a string of decimal digits and NaN elsewhere; the
  eligibility check is a limit of 1000, which NaN does not pass.
\<close>

fun digitsValue :: "string \<Rightarrow> nat \<Rightarrow> nat option" where
  "digitsValue [] n = Some n"
| "digitsValue (c # cs) n =
     (if 48 \<le> (of_char c :: nat) \<and> (of_char c :: nat) \<le> 57
      then digitsValue cs (10 * n + (of_char c - 48))
      else None)"

definition decimalToNumber :: "string \<Rightarrow> jsnum" where
  "decimalToNumber s = (case digitsValue s 0 of None \<Rightarrow> NaN | Some n \<Rightarrow> Fin (of_nat n))"

definition limitOf1000 :: "jsnum \<Rightarrow> bool" where
  "limitOf1000 n = (case n of Fin r \<Rightarrow> r \<le> 1000 | PosInf \<Rightarrow> False | NegInf \<Rightarrow> True | NaN \<Rightarrow> False)"

definition sampleHooks :: hooks where
  "sampleHooks =
     \<lparr>isAllowedToSell = limitOf1000,
      formatAmountCrypto = (\<lambda>n. case n of Fin r \<Rightarrow> natToString (nat \<lfloor>r\<rfloor>) | _ \<Rightarrow> ''NaN''),
      toSymbol = fiat_name,
      stringToNumber = decimalToNumber,
      fractionToString = (\<lambda>r. ''?'')\<rparr>"

definition EUR :: Fiat where
  "EUR = \<lparr>fiat_id = 2, fiat_name = ''EUR''\<rparr>"

definition BTC :: Asset where
  "BTC = \<lparr>asset_id = 1, asset_name = ''BTC''\<rparr>"

definition sampleAccount :: BankAccount where
  "sampleAccount = \<lparr>bank_id = 7, iban = ''DE89'', preferredCurrency = None\<rparr>"

definition sampleQuote :: Sell where
  "sampleQuote =
     \<lparr>estimatedAmount = Fin 95, fee = Fin 2, minFeeTarget = Fin 0, minVolume = Fin 10,
      paymentRequest = Some ''pay:xyz''\<rparr>"

definition identIncomplete :: ApiError where
  "identIncomplete = \<lparr>statusCode = 400, message = ''Ident data incomplete''\<rparr>"

text \<open>The user fills the form with amount \<open>m\<close> and the debounce timer fires.\<close>

definition fillForm :: "string \<Rightarrow> event list" where
  "fillForm m = [SelectBankAccount sampleAccount, SelectCurrency EUR, EnterAmount m, DebounceFire]"

definition formEUR :: PartialFormData where
  "formEUR =
     \<lparr>p_bankAccount = Some sampleAccount, p_asset = Some BTC, p_currency = Some EUR,
      p_amount = Some ''100''\<rparr>"

definition sampleCall :: quote_call where
  "sampleCall =
     \<lparr>q_iban = ''DE89'', q_currency = EUR, q_amount = Fin 100, q_asset = BTC,
      q_data = formEUR\<rparr>"

definition quoteWithMinFee :: Sell where
  "quoteWithMinFee = sampleQuote\<lparr>minFeeTarget := Fin 5\<rparr>"

definition ineligibleQuote :: Sell where
  "ineligibleQuote = sampleQuote\<lparr>estimatedAmount := Fin 5000\<rparr>"

definition largeMinimumQuote :: Sell where
  "largeMinimumQuote = sampleQuote\<lparr>minVolume := Fin 200\<rparr>"

definition serverError :: ApiError where
  "serverError = \<lparr>statusCode = 500, message = ''Internal server error''\<rparr>"

definition alwaysAllowed :: hooks where
  "alwaysAllowed = sampleHooks\<lparr>isAllowedToSell := (\<lambda>n. True)\<rparr>"

text \<open>The screen after mounting with the asset BTC and a wallet address.\<close>

definition start :: screen where
  "start = mount sampleHooks (Some BTC) (Some ''addr'')"

text \<open>The screen of the end-to-end scenario: the form is filled and the quote has arrived.\<close>

definition quoted :: screen where
  "quoted = run sampleHooks (fillForm ''100'' @ [QuoteResolves 0 sampleQuote]) start"

text \<open>
  The payment information and the message of the minimum deposit are not both present.
\<close>

definition noViolation :: "screen \<Rightarrow> bool" where
  "noViolation s = (paymentInfo s = None \<or> customAmountError s = None)"

section \<open>Properties\<close>

subsection \<open>The sample data, evaluated\<close>

lemma natToString_95: "natToString 95 = ''95''"
  by code_simp

lemma natToString_2: "natToString 2 = ''2''"
  by code_simp

lemma numberToString_95: "numberToString h (Fin 95) = ''95''"
  by (simp add: numberToString_def natToString_95)

lemma numberToString_2: "numberToString h (Fin 2) = ''2''"
  by (simp add: numberToString_def natToString_2)

lemma start_eq:
  "start =
     \<lparr>data = \<lparr>p_bankAccount = None, p_asset = Some BTC, p_currency = None, p_amount = Some ''''\<rparr>,
      debounced = \<lparr>p_bankAccount = None, p_asset = Some BTC, p_currency = None, p_amount = None\<rparr>,
      address = Some ''addr'', customAmountError = None, isLoading = False, isCompleting = False,
      isCompleted = False, kycRequired = False, paymentInfo = None,
      quoteCalls = [], accountCalls = [], paymentCalls = []\<rparr>"
  by (simp add: start_def mount_def quoteEffect_def amountEffect_def bankAccountEffect_def
        assetEffect_def firstRender_def validatedData_def validateData_def Number_of_def
        truthy_def)

lemma quoted_eq:
  "quoted =
     \<lparr>data = formEUR, debounced = formEUR,
      address = Some ''addr'', customAmountError = None, isLoading = False, isCompleting = False,
      isCompleted = False, kycRequired = False,
      paymentInfo = Some \<lparr>pi_estimatedAmount = almostEqual @ '' 95 EUR (incl. DFX fees)'',
                           pi_fee = ''2 %'', minFee = None, pi_paymentRequest = ''pay:xyz''\<rparr>,
      quoteCalls = [], accountCalls = [], paymentCalls = []\<rparr>"
  by code_simp

lemma quoted_ready:
  "showsPaymentInfo quoted" "\<not> submitBlocked sampleHooks quoted"
  "paymentInfo quoted = Some \<lparr>pi_estimatedAmount = almostEqual @ '' 95 EUR (incl. DFX fees)'',
                           pi_fee = ''2 %'', minFee = None, pi_paymentRequest = ''pay:xyz''\<rparr>"
  "p_bankAccount (data quoted) = Some sampleAccount"
  unfolding quoted_eq by code_simp+

subsection \<open>What each callback does to the state\<close>

lemma quoteResolved_below:
  assumes "js_gt (minVolume sell) (q_amount c)"
  shows "quoteResolved h c sell s =
           s\<lparr>customAmountError :=
                Some (''Entered amount is below minimum deposit of ''
                      @ formatAmountCrypto h (minVolume sell) @ '' '' @ asset_name (q_asset c)),
             kycRequired := \<not> isAllowedToSell h NaN,
             paymentInfo := None, isLoading := False\<rparr>"
  using assms
  by (simp add: quoteResolved_def checkForMinDeposit_def kycStage_def toPaymentInformation_def)

lemma quoteResolved_enough:
  assumes "\<not> js_gt (minVolume sell) (q_amount c)"
  shows "quoteResolved h c sell s =
           s\<lparr>customAmountError := None,
             kycRequired := \<not> isAllowedToSell h (estimatedAmount sell),
             paymentInfo := toPaymentInformation h (q_data c) (Some sell), isLoading := False\<rparr>"
  using assms
  by (simp add: quoteResolved_def checkForMinDeposit_def kycStage_def)

lemma validateData_amount: "validateData h (Some p) = Some v \<Longrightarrow> p_amount p = Some (amount v)"
  by (auto simp: validateData_def split: if_splits option.splits)

lemma validateData_asset: "validateData h (Some p) = Some v \<Longrightarrow> p_asset p = Some (asset v)"
  by (auto simp: validateData_def split: if_splits option.splits)

lemma handleNext_submits:
  assumes "\<not> submitBlocked h s" and "paymentInfo s = Some p" and "p_bankAccount (data s) = Some b"
  shows "handleNext h s =
           s\<lparr>isCompleting := True,
             accountCalls := accountCalls s @
               [\<lparr>u_id = bank_id b, u_preferredCurrency = p_currency (data s),
                 u_paymentRequest = pi_paymentRequest p\<rparr>]\<rparr>"
  using assms by (simp add: handleNext_def)

lemma withoutNth_last: "withoutNth (length xs) (xs @ [x]) = xs"
  by (simp add: withoutNth_def)

lemma click_then_update_resolves:
  assumes "showsPaymentInfo s" and "\<not> submitBlocked h s" and "paymentInfo s = Some p"
      and "p_bankAccount (data s) = Some b"
  shows "run h [ClickNext, UpdateResolves (length (accountCalls s))] s =
           s\<lparr>isCompleting := True, paymentCalls := paymentCalls s @ [pi_paymentRequest p]\<rparr>"
  using assms
  by (simp add: handleNext_submits [OF assms(2,3,4)] updateResolved_def withoutNth_last)

lemma click_then_update_rejects:
  assumes "showsPaymentInfo s" and "\<not> submitBlocked h s" and "paymentInfo s = Some p"
      and "p_bankAccount (data s) = Some b"
  shows "run h [ClickNext, UpdateRejects (length (accountCalls s))] s = s\<lparr>isCompleting := True\<rparr>"
  using assms
  by (simp add: handleNext_submits [OF assms(2,3,4)] updateRejected_def withoutNth_last)

lemma reachable_run: "reachable h s \<Longrightarrow> reachable h (run h evs s)"
  by (induction evs arbitrary: s) (simp_all add: reachable.stepped)

subsection \<open>The quote and the minimum deposit\<close>

text \<open>
  C2. When a quote arrives whose \<open>minVolume\<close> is above the requested amount,
  \<open>checkForMinDeposit\<close> returns undefined, so that the chain leaves no payment
  information, and the error message of the amount is
  \<open>Entered amount is below minimum deposit of\<close> followed by the formatted minimum and
  the name of the asset; for every other quote the message is cleared.
\<close>

theorem minimum_deposit_policy:
  "(js_gt (minVolume sell) (q_amount c) \<longrightarrow>
      fst (checkForMinDeposit h sell (q_amount c) (asset_name (q_asset c)) s) = None
      \<and> paymentInfo (quoteResolved h c sell s) = None
      \<and> customAmountError (quoteResolved h c sell s)
          = Some (''Entered amount is below minimum deposit of ''
                  @ formatAmountCrypto h (minVolume sell) @ '' '' @ asset_name (q_asset c)))
   \<and> (\<not> js_gt (minVolume sell) (q_amount c) \<longrightarrow>
      fst (checkForMinDeposit h sell (q_amount c) (asset_name (q_asset c)) s) = Some sell
      \<and> customAmountError (quoteResolved h c sell s) = None)"
  by (simp add: quoteResolved_below quoteResolved_enough checkForMinDeposit_def)

text \<open>
  The scenario of the specification with a minimum of 200 for an amount of 100, and the
  one with a minimum of 10.
\<close>

theorem minimum_deposit_policy_witness:
  "js_gt (minVolume largeMinimumQuote) (q_amount sampleCall)
   \<and> paymentInfo (quoteResolved sampleHooks sampleCall largeMinimumQuote quoted) = None
   \<and> customAmountError (quoteResolved sampleHooks sampleCall largeMinimumQuote quoted)
        = Some ''Entered amount is below minimum deposit of 200 BTC''
   \<and> \<not> js_gt (minVolume sampleQuote) (q_amount sampleCall)
   \<and> customAmountError (quoteResolved sampleHooks sampleCall sampleQuote quoted) = None"
proof -
  have a: "js_gt (minVolume largeMinimumQuote) (q_amount sampleCall)"
    by (simp add: largeMinimumQuote_def sampleQuote_def sampleCall_def)
  have b: "\<not> js_gt (minVolume sampleQuote) (q_amount sampleCall)"
    by (simp add: sampleQuote_def sampleCall_def)
  have f: "formatAmountCrypto sampleHooks (minVolume largeMinimumQuote) = ''200''"
    by code_simp
  have n: "asset_name (q_asset sampleCall) = ''BTC''"
    by (simp add: sampleCall_def BTC_def)
  from minimum_deposit_policy [of largeMinimumQuote sampleCall sampleHooks quoted]
       minimum_deposit_policy [of sampleQuote sampleCall sampleHooks quoted] a b f n
  show ?thesis by simp
qed

subsection \<open>The quote and the eligibility check\<close>

text \<open>
  C3, as the code has it. The callback that sets \<open>kycRequired\<close> follows
  \<open>checkForMinDeposit\<close> in the chain and runs whatever that returned: after a quote
  has arrived, \<open>kycRequired\<close> is true exactly when the eligibility check returns false,
  on \<open>estimatedAmount\<close> for a quote that passed the minimum deposit and on NaN for a
  quote that was discarded.
\<close>

theorem kycRequired_after_quote:
  "kycRequired (quoteResolved h c sell s)
     = (\<not> isAllowedToSell h
            (if js_gt (minVolume sell) (q_amount c) then NaN else estimatedAmount sell))"
  by (simp add: quoteResolved_below quoteResolved_enough)

text \<open>An estimated amount above the limit, one below it, and a discarded quote.\<close>

theorem kycRequired_after_quote_witness:
  "kycRequired (quoteResolved sampleHooks sampleCall ineligibleQuote start)
   \<and> \<not> kycRequired (quoteResolved sampleHooks sampleCall sampleQuote start)
   \<and> kycRequired (quoteResolved sampleHooks sampleCall largeMinimumQuote start)"
  using kycRequired_after_quote [of sampleHooks sampleCall ineligibleQuote start]
        kycRequired_after_quote [of sampleHooks sampleCall sampleQuote start]
        kycRequired_after_quote [of sampleHooks sampleCall largeMinimumQuote start]
  by (simp add: sampleHooks_def limitOf1000_def sampleCall_def ineligibleQuote_def
        sampleQuote_def largeMinimumQuote_def)

text \<open>
  C3, as stated, says that \<open>kycRequired\<close> keeps its value when the quote is discarded.
  With a minimum of 200 for an amount of 100 the quote is discarded, and the flag goes
  from false to true under an eligibility check that rejects NaN, and from true to false
  under one that accepts everything.
\<close>

theorem kyc_reevaluated_counterexample:
  "js_gt (minVolume largeMinimumQuote) (q_amount sampleCall)
   \<and> \<not> kycRequired start
   \<and> kycRequired (quoteResolved sampleHooks sampleCall largeMinimumQuote start)
   \<and> kycRequired (start\<lparr>kycRequired := True\<rparr>)
   \<and> \<not> kycRequired (quoteResolved alwaysAllowed sampleCall largeMinimumQuote
                        (start\<lparr>kycRequired := True\<rparr>))"
proof -
  have a: "js_gt (minVolume largeMinimumQuote) (q_amount sampleCall)"
    by (simp add: largeMinimumQuote_def sampleQuote_def sampleCall_def)
  have b: "\<not> kycRequired start"
    by (simp add: start_eq)
  show ?thesis
    using a b by (simp add: quoteResolved_below sampleHooks_def alwaysAllowed_def limitOf1000_def)
qed

subsection \<open>A quote request that fails\<close>

text \<open>
  C4, as the code has it. The \<open>catch\<close> callback only sets \<open>kycRequired\<close>, and only for
  status 400 with the message \<open>Ident data incomplete\<close>; \<open>finally\<close> clears the loading
  flag. So a failure with that pair leaves the state as it was except for
  \<open>kycRequired\<close>, now true, and the loading flag; any other failure changes the loading
  flag alone. The payment information and the error message of the amount keep the
  values they had before the request failed.
\<close>

theorem quoteRejected_effect:
  "(statusCode err = 400 \<and> message err = ''Ident data incomplete'' \<longrightarrow>
      quoteRejected err s = s\<lparr>kycRequired := True, isLoading := False\<rparr>)
   \<and> (\<not> (statusCode err = 400 \<and> message err = ''Ident data incomplete'') \<longrightarrow>
      quoteRejected err s = s\<lparr>isLoading := False\<rparr>)
   \<and> paymentInfo (quoteRejected err s) = paymentInfo s
   \<and> customAmountError (quoteRejected err s) = customAmountError s"
  by (simp add: quoteRejected_def)

text \<open>On the screen as mounted, where there is no payment information yet.\<close>

theorem quoteRejected_effect_witness:
  "quoteRejected identIncomplete start = start\<lparr>kycRequired := True, isLoading := False\<rparr>
   \<and> paymentInfo (quoteRejected identIncomplete start) = None
   \<and> quoteRejected serverError start = start\<lparr>isLoading := False\<rparr>"
  using quoteRejected_effect [of identIncomplete start] quoteRejected_effect [of serverError start]
  by (simp add: identIncomplete_def serverError_def start_eq)

text \<open>
  C4, as stated, says that after a failure with status 400 and
  \<open>Ident data incomplete\<close> the payment information is absent and no other error is
  shown. After the quote of the end-to-end scenario the user changes the amount to 200
  and the second request fails that way: the payment information of the first quote is
  still there. And when the first quote was below the minimum deposit, its message is
  still there after the second request has failed.
\<close>

theorem quote_rejection_keeps_state_counterexample:
  "statusCode identIncomplete = 400 \<and> message identIncomplete = ''Ident data incomplete''
   \<and> quoteCalls (run sampleHooks [EnterAmount ''200'', DebounceFire] quoted) \<noteq> []
   \<and> paymentInfo (run sampleHooks
                    [EnterAmount ''200'', DebounceFire, QuoteRejects 0 identIncomplete] quoted)
       \<noteq> None
   \<and> customAmountError
       (run sampleHooks
          (fillForm ''100'' @ [QuoteResolves 0 largeMinimumQuote, EnterAmount ''150'',
                               DebounceFire, QuoteRejects 0 identIncomplete]) start)
       = Some ''Entered amount is below minimum deposit of 200 BTC''"
  by code_simp

subsection \<open>The projection of a quote\<close>

text \<open>
  C8. With the currency named EUR, a quote with estimated amount 95, fee 2, minimum fee
  target 0 and payment request \<open>pay:xyz\<close> becomes the payment information with the
  estimated amount \<open>U+2248 95 EUR (incl. DFX fees)\<close>, fee \<open>2 %\<close>, no minimum fee and
  payment request \<open>pay:xyz\<close>, whatever the other fields and the hooks are. And
  whenever a payment information has a minimum fee, it comes from a quote whose minimum
  fee target is above 0.
\<close>

theorem toPaymentInformation_scenario:
  "toPaymentInformation h (d\<lparr>p_currency := Some (c\<lparr>fiat_name := ''EUR''\<rparr>)\<rparr>)
     (Some (q\<lparr>estimatedAmount := Fin 95, fee := Fin 2, minFeeTarget := Fin 0,
              paymentRequest := Some ''pay:xyz''\<rparr>))
   = Some \<lparr>pi_estimatedAmount = almostEqual @ '' 95 EUR (incl. DFX fees)'',
           pi_fee = ''2 %'', minFee = None, pi_paymentRequest = ''pay:xyz''\<rparr>
   \<and> (\<forall>v p. toPaymentInformation h d v = Some p \<and> minFee p \<noteq> None
          \<longrightarrow> (\<exists>q. v = Some q \<and> js_gt (minFeeTarget q) (Fin 0)))"
proof (intro conjI allI impI)
  show "toPaymentInformation h (d\<lparr>p_currency := Some (c\<lparr>fiat_name := ''EUR''\<rparr>)\<rparr>)
     (Some (q\<lparr>estimatedAmount := Fin 95, fee := Fin 2, minFeeTarget := Fin 0,
              paymentRequest := Some ''pay:xyz''\<rparr>))
   = Some \<lparr>pi_estimatedAmount = almostEqual @ '' 95 EUR (incl. DFX fees)'',
           pi_fee = ''2 %'', minFee = None, pi_paymentRequest = ''pay:xyz''\<rparr>"
    by (simp add: toPaymentInformation_def numberToString_95 numberToString_2)
next
  fix v p
  assume a: "toPaymentInformation h d v = Some p \<and> minFee p \<noteq> None"
  then obtain q where v: "v = Some q"
    by (cases v) (simp_all add: toPaymentInformation_def)
  with a have "js_gt (minFeeTarget q) (Fin 0)"
    by (auto simp: toPaymentInformation_def split: if_splits)
  with v show "\<exists>q. v = Some q \<and> js_gt (minFeeTarget q) (Fin 0)" by simp
qed

text \<open>A quote with a minimum fee target of 5: the minimum fee is shown.\<close>

theorem toPaymentInformation_scenario_witness:
  "toPaymentInformation sampleHooks formEUR (Some quoteWithMinFee)
     = Some \<lparr>pi_estimatedAmount = almostEqual @ '' 95 EUR (incl. DFX fees)'',
           pi_fee = ''2 %'', minFee = Some ''5EUR'', pi_paymentRequest = ''pay:xyz''\<rparr>
   \<and> js_gt (minFeeTarget quoteWithMinFee) (Fin 0)"
proof -
  have e: "toPaymentInformation sampleHooks formEUR (Some quoteWithMinFee)
     = Some \<lparr>pi_estimatedAmount = almostEqual @ '' 95 EUR (incl. DFX fees)'',
           pi_fee = ''2 %'', minFee = Some ''5EUR'', pi_paymentRequest = ''pay:xyz''\<rparr>"
    by code_simp
  from toPaymentInformation_scenario [where h = sampleHooks and d = formEUR] e
  show ?thesis by fastforce
qed

subsection \<open>The guard of the submission\<close>

text \<open>
  C5. When there is no validated data, or the amount or the asset of the debounced
  snapshot is missing (or the amount is the empty string), or there is no wallet address
  (or an empty one), or there is no payment information, \<open>handleNext\<close> returns the
  state it was given: the phase flags are as before, and no account update and no
  payment has been started. The same holds for a click on the button.
\<close>

theorem handleNext_blocked:
  assumes "validatedData h s = None
           \<or> p_amount (debounced s) = None \<or> p_amount (debounced s) = Some ''''
           \<or> p_asset (debounced s) = None
           \<or> address s = None \<or> address s = Some ''''
           \<or> paymentInfo s = None"
  shows "handleNext h s = s \<and> step h ClickNext s = s"
proof -
  have "submitBlocked h s"
  proof (cases "validatedData h s")
    case None
    then show ?thesis by (simp add: submitBlocked_def)
  next
    case (Some v)
    then have "p_amount (debounced s) = Some (amount v)" "p_asset (debounced s) = Some (asset v)"
      by (simp_all add: validatedData_def validateData_amount validateData_asset)
    with assms Some show ?thesis
      by (auto simp: submitBlocked_def truthy_def)
  qed
  then show ?thesis by (simp add: handleNext_def)
qed

text \<open>
  The screen as mounted has no payment information; the screen of the end-to-end
  scenario without a wallet address is blocked as well, and with the address it is not.
\<close>

theorem handleNext_blocked_witness:
  "paymentInfo start = None \<and> handleNext sampleHooks start = start
   \<and> address (quoted\<lparr>address := None\<rparr>) = None
   \<and> handleNext sampleHooks (quoted\<lparr>address := None\<rparr>) = quoted\<lparr>address := None\<rparr>
   \<and> handleNext sampleHooks quoted \<noteq> quoted"
proof -
  have a: "paymentInfo start = None" by (simp add: start_eq)
  have b: "address (quoted\<lparr>address := None\<rparr>) = None" by simp
  have c: "handleNext sampleHooks quoted \<noteq> quoted"
    unfolding quoted_eq by code_simp
  from a b c handleNext_blocked [of sampleHooks start]
    handleNext_blocked [of sampleHooks "quoted\<lparr>address := None\<rparr>"]
  show ?thesis by simp
qed

subsection \<open>A change of the asset prop\<close>

text \<open>
  C7, as the code has it. From every state, a change of the \<open>asset\<close> prop sets the
  amount to the empty string and clears \<open>isCompleting\<close> and \<open>isCompleted\<close>; the asset
  field becomes the new asset when there is one, and keeps its value when the prop has
  become undefined (\<open>asset && setValue('asset', asset)\<close>).
\<close>

theorem asset_change_resets:
  "p_asset (data (step h (AssetProp a) s))
     = (case a of None \<Rightarrow> p_asset (data s) | Some x \<Rightarrow> Some x)
   \<and> p_amount (data (step h (AssetProp a) s)) = Some ''''
   \<and> \<not> isCompleting (step h (AssetProp a) s)
   \<and> \<not> isCompleted (step h (AssetProp a) s)"
  by (simp add: assetEffect_def whenAmountChanged_def amountEffect_def split: option.splits)

text \<open>The completed screen of the end-to-end scenario, and the asset changes to ETH.\<close>

theorem asset_change_resets_witness:
  "p_asset (data (step sampleHooks (AssetProp (Some \<lparr>asset_id = 3, asset_name = ''ETH''\<rparr>))
                   (quoted\<lparr>isCompleted := True\<rparr>)))
     = Some \<lparr>asset_id = 3, asset_name = ''ETH''\<rparr>
   \<and> p_amount (data (step sampleHooks (AssetProp (Some \<lparr>asset_id = 3, asset_name = ''ETH''\<rparr>))
                   (quoted\<lparr>isCompleted := True\<rparr>))) = Some ''''
   \<and> \<not> isCompleted (step sampleHooks (AssetProp (Some \<lparr>asset_id = 3, asset_name = ''ETH''\<rparr>))
                   (quoted\<lparr>isCompleted := True\<rparr>))"
  using asset_change_resets
    [of sampleHooks "Some \<lparr>asset_id = 3, asset_name = ''ETH''\<rparr>" "quoted\<lparr>isCompleted := True\<rparr>"]
  by simp

text \<open>
  C7, as stated, says that the asset field is overwritten at every change of the prop.
  When the prop changes from BTC to undefined, the field still holds BTC.
\<close>

theorem asset_prop_undefined_counterexample:
  "p_asset (data quoted) = Some BTC
   \<and> p_asset (data (step sampleHooks (AssetProp None) quoted)) = Some BTC
   \<and> p_asset (data (assetEffect None quoted)) \<noteq> None"
  by (simp add: quoted_eq formEUR_def assetEffect_def whenAmountChanged_def amountEffect_def)

subsection \<open>The debounced snapshot becomes invalid\<close>

text \<open>
  C10. When the debounced snapshot was valid and the one that replaces it is not, while
  the amount field is not empty, the state changes in the snapshot and in the payment
  information, which is cleared, and in nothing else: the error message of the amount
  and \<open>kycRequired\<close> are as before, and the effect of the amount, which clears them for
  an empty amount, leaves this state as it is.
\<close>

theorem invalid_snapshot_frame:
  assumes "validatedData h s \<noteq> None"
      and "validateData h (Some (data s)) = None"
      and "truthy (p_amount (data s))"
  shows "step h DebounceFire s = s\<lparr>debounced := data s, paymentInfo := None\<rparr>
         \<and> customAmountError (step h DebounceFire s) = customAmountError s
         \<and> kycRequired (step h DebounceFire s) = kycRequired s
         \<and> amountEffect (step h DebounceFire s) = step h DebounceFire s"
proof -
  from assms(1) obtain v where v: "validateData h (Some (debounced s)) = Some v"
    by (auto simp: validatedData_def)
  have e: "step h DebounceFire s = s\<lparr>debounced := data s, paymentInfo := None\<rparr>"
    using v assms(2) by (simp add: debounceFire_def quoteEffect_def validatedData_def)
  show ?thesis
    unfolding e using assms(3) by (simp add: amountEffect_def)
qed

text \<open>
  The screen of the end-to-end scenario with \<open>kycRequired\<close> set, after the currency has
  been cleared: the payment information goes, the flag stays.
\<close>

theorem invalid_snapshot_frame_witness:
  "validatedData sampleHooks
     (quoted\<lparr>data := formEUR\<lparr>p_currency := None\<rparr>, kycRequired := True\<rparr>) \<noteq> None
   \<and> validateData sampleHooks (Some (formEUR\<lparr>p_currency := None\<rparr>)) = None
   \<and> truthy (p_amount (formEUR\<lparr>p_currency := None\<rparr>))
   \<and> paymentInfo (step sampleHooks DebounceFire
        (quoted\<lparr>data := formEUR\<lparr>p_currency := None\<rparr>, kycRequired := True\<rparr>)) = None
   \<and> kycRequired (step sampleHooks DebounceFire
        (quoted\<lparr>data := formEUR\<lparr>p_currency := None\<rparr>, kycRequired := True\<rparr>))"
proof -
  have a: "validatedData sampleHooks
             (quoted\<lparr>data := formEUR\<lparr>p_currency := None\<rparr>, kycRequired := True\<rparr>) \<noteq> None"
    unfolding quoted_eq by code_simp
  have b: "validateData sampleHooks (Some (formEUR\<lparr>p_currency := None\<rparr>)) = None"
    by code_simp
  have c: "truthy (p_amount (formEUR\<lparr>p_currency := None\<rparr>))"
    by (simp add: formEUR_def truthy_def)
  from invalid_snapshot_frame
    [of sampleHooks "quoted\<lparr>data := formEUR\<lparr>p_currency := None\<rparr>, kycRequired := True\<rparr>"] a b c
  show ?thesis by simp
qed

subsection \<open>The payment information over the lifetime of the screen\<close>

lemma noViolation_amountEffect: "noViolation s \<Longrightarrow> noViolation (amountEffect s)"
  by (auto simp: noViolation_def amountEffect_def)

lemma noViolation_whenAmountChanged: "noViolation s \<Longrightarrow> noViolation (whenAmountChanged b s)"
  by (simp add: whenAmountChanged_def noViolation_amountEffect)

lemma noViolation_assetEffect: "noViolation s \<Longrightarrow> noViolation (assetEffect a s)"
  by (auto simp: noViolation_def assetEffect_def split: option.splits)

lemma noViolation_bankAccountEffect: "noViolation s \<Longrightarrow> noViolation (bankAccountEffect s)"
  by (auto simp: noViolation_def bankAccountEffect_def split: option.splits)

lemma noViolation_quoteEffect: "noViolation s \<Longrightarrow> noViolation (quoteEffect h s)"
  by (auto simp: noViolation_def quoteEffect_def split: option.splits)

lemma noViolation_debounceFire: "noViolation s \<Longrightarrow> noViolation (debounceFire h s)"
proof -
  assume a: "noViolation s"
  then have "noViolation (s\<lparr>debounced := data s\<rparr>)" by (simp add: noViolation_def)
  then show ?thesis
    by (simp add: debounceFire_def Let_def noViolation_quoteEffect)
qed

lemma noViolation_quoteResolved: "noViolation (quoteResolved h c sell s)"
  by (cases "js_gt (minVolume sell) (q_amount c)")
     (simp_all add: quoteResolved_below quoteResolved_enough noViolation_def)

lemma noViolation_quoteRejected: "noViolation s \<Longrightarrow> noViolation (quoteRejected err s)"
  by (auto simp: noViolation_def quoteRejected_def)

lemma noViolation_handleNext: "noViolation s \<Longrightarrow> noViolation (handleNext h s)"
  by (auto simp: noViolation_def handleNext_def Let_def split: option.splits)

lemma noViolation_step: "noViolation s \<Longrightarrow> noViolation (step h ev s)"
proof (cases ev)
  case (AssetProp a)
  assume "noViolation s"
  then show ?thesis
    by (simp add: AssetProp noViolation_whenAmountChanged noViolation_assetEffect)
next
  case (SelectBankAccount b)
  assume a: "noViolation s"
  then have "noViolation (s\<lparr>data := (data s)\<lparr>p_bankAccount := Some b\<rparr>\<rparr>)"
    by (simp add: noViolation_def)
  with a show ?thesis
    by (simp add: SelectBankAccount noViolation_bankAccountEffect)
next
  case (SelectCurrency c)
  assume "noViolation s"
  then show ?thesis by (simp add: SelectCurrency noViolation_def)
next
  case (EnterAmount m)
  assume a: "noViolation s"
  then have "noViolation (s\<lparr>data := (data s)\<lparr>p_amount := Some m\<rparr>\<rparr>)"
    by (simp add: noViolation_def)
  then show ?thesis
    by (simp add: EnterAmount noViolation_whenAmountChanged)
next
  case (WalletAddress w)
  assume "noViolation s"
  then show ?thesis by (simp add: WalletAddress noViolation_def)
next
  case DebounceFire
  assume "noViolation s"
  then show ?thesis by (simp add: DebounceFire noViolation_debounceFire)
next
  case (QuoteResolves i sell)
  assume "noViolation s"
  then show ?thesis by (simp add: QuoteResolves noViolation_quoteResolved)
next
  case (QuoteRejects i err)
  assume a: "noViolation s"
  then have "noViolation (s\<lparr>quoteCalls := withoutNth i (quoteCalls s)\<rparr>)"
    by (simp add: noViolation_def)
  with a show ?thesis by (simp add: QuoteRejects noViolation_quoteRejected)
next
  case ClickNext
  assume "noViolation s"
  then show ?thesis by (simp add: ClickNext noViolation_handleNext)
next
  case (UpdateResolves i)
  assume "noViolation s"
  then show ?thesis by (simp add: UpdateResolves noViolation_def updateResolved_def)
next
  case (UpdateRejects i)
  assume "noViolation s"
  then show ?thesis by (simp add: UpdateRejects noViolation_def updateRejected_def)
next
  case (SendResolves i)
  assume "noViolation s"
  then show ?thesis by (simp add: SendResolves noViolation_def sendResolved_def)
next
  case (SendRejects i)
  assume "noViolation s"
  then show ?thesis by (simp add: SendRejects noViolation_def sendRejected_def)
qed

lemma noViolation_mount: "noViolation (mount h a w)"
proof -
  have "noViolation (firstRender a w)" by (simp add: noViolation_def firstRender_def)
  then show ?thesis
    unfolding mount_def
    by (intro noViolation_quoteEffect noViolation_amountEffect noViolation_bankAccountEffect
          noViolation_assetEffect)
qed

text \<open>
  C1, as the code has it. In every state the screen reaches, after mounting and after
  each event, the payment information is present only when no message of the minimum
  deposit is recorded; and the payment details with the button are shown only when,
  moreover, \<open>kycRequired\<close> is not set. (The callbacks of one settled request are taken
  as one event.) The state itself can hold a payment information while \<open>kycRequired\<close>
  is set or while there is no validated data, as the counterexample below shows.
\<close>

theorem paymentInfo_invariant:
  assumes "reachable h s"
  shows "(paymentInfo s \<noteq> None \<longrightarrow> customAmountError s = None)
         \<and> (showsPaymentInfo s \<longrightarrow>
              paymentInfo s \<noteq> None \<and> customAmountError s = None \<and> \<not> kycRequired s)"
proof -
  from assms have "noViolation s"
    by (induction rule: reachable.induct) (simp_all add: noViolation_mount noViolation_step)
  then show ?thesis
    by (auto simp: noViolation_def showsPaymentInfo_def)
qed

text \<open>The screen of the end-to-end scenario is reached, and it shows the payment details.\<close>

theorem paymentInfo_invariant_witness:
  "reachable sampleHooks quoted \<and> paymentInfo quoted \<noteq> None \<and> showsPaymentInfo quoted
   \<and> customAmountError quoted = None \<and> \<not> kycRequired quoted"
proof -
  have r: "reachable sampleHooks quoted"
    unfolding quoted_def start_def by (intro reachable_run reachable.mounted)
  have p: "paymentInfo quoted \<noteq> None" "showsPaymentInfo quoted"
    by (simp_all add: quoted_eq showsPaymentInfo_def)
  from paymentInfo_invariant [OF r] r p show ?thesis by simp
qed

text \<open>
  C1, as stated, says that the payment information is present only with validated data
  and without \<open>kycRequired\<close>. A quote with an estimated amount of 5000, above the
  limit, sets \<open>kycRequired\<close> and is stored all the same. And a quote requested for the
  amount 100 that arrives after the amount has become 0 is stored although the
  debounced snapshot is no longer valid.
\<close>

theorem paymentInfo_without_gate_counterexample:
  "reachable sampleHooks
     (run sampleHooks (fillForm ''100'' @ [QuoteResolves 0 ineligibleQuote]) start)
   \<and> paymentInfo
       (run sampleHooks (fillForm ''100'' @ [QuoteResolves 0 ineligibleQuote]) start) \<noteq> None
   \<and> kycRequired (run sampleHooks (fillForm ''100'' @ [QuoteResolves 0 ineligibleQuote]) start)
   \<and> reachable sampleHooks
       (run sampleHooks
          (fillForm ''100'' @ [EnterAmount ''0'', DebounceFire, QuoteResolves 0 sampleQuote]) start)
   \<and> paymentInfo
       (run sampleHooks
          (fillForm ''100'' @ [EnterAmount ''0'', DebounceFire, QuoteResolves 0 sampleQuote]) start)
       \<noteq> None
   \<and> validatedData sampleHooks
       (run sampleHooks
          (fillForm ''100'' @ [EnterAmount ''0'', DebounceFire, QuoteResolves 0 sampleQuote]) start)
       = None"
proof -
  have r: "reachable sampleHooks (run sampleHooks evs start)" for evs
    unfolding start_def by (intro reachable_run reachable.mounted)
  have a: "paymentInfo
             (run sampleHooks (fillForm ''100'' @ [QuoteResolves 0 ineligibleQuote]) start) \<noteq> None"
    by code_simp
  have b: "kycRequired
             (run sampleHooks (fillForm ''100'' @ [QuoteResolves 0 ineligibleQuote]) start)"
    by code_simp
  have c: "paymentInfo
             (run sampleHooks
                (fillForm ''100'' @ [EnterAmount ''0'', DebounceFire, QuoteResolves 0 sampleQuote])
                start) \<noteq> None"
    by code_simp
  have d: "validatedData sampleHooks
             (run sampleHooks
                (fillForm ''100'' @ [EnterAmount ''0'', DebounceFire, QuoteResolves 0 sampleQuote])
                start) = None"
    by code_simp
  from r a b c d show ?thesis by simp
qed

subsection \<open>The submission after the guard\<close>

text \<open>
  C6. Whatever the state, the callbacks of a fulfilled payment set \<open>isCompleted\<close> and
  clear \<open>isCompleting\<close>, and those of a rejected payment clear \<open>isCompleting\<close> and
  leave \<open>isCompleted\<close> as it was. From a screen that shows the button and passes the
  guard, a click followed by the account update sends the payment request of the
  payment information; when that payment is fulfilled the screen is completed and no
  longer completing, and when it is rejected the screen is neither.
\<close>

theorem send_settles:
  assumes "showsPaymentInfo s" and "\<not> submitBlocked h s" and "paymentInfo s = Some p"
      and "p_bankAccount (data s) = Some b"
  shows "isCompleted (sendResolved t) \<and> \<not> isCompleting (sendResolved t)
         \<and> \<not> isCompleting (sendRejected t) \<and> isCompleted (sendRejected t) = isCompleted t
         \<and> paymentCalls (run h [ClickNext, UpdateResolves (length (accountCalls s))] s)
             = paymentCalls s @ [pi_paymentRequest p]
         \<and> isCompleted (run h [ClickNext, UpdateResolves (length (accountCalls s)),
                               SendResolves (length (paymentCalls s))] s)
         \<and> \<not> isCompleting (run h [ClickNext, UpdateResolves (length (accountCalls s)),
                                   SendResolves (length (paymentCalls s))] s)
         \<and> \<not> isCompleted (run h [ClickNext, UpdateResolves (length (accountCalls s)),
                                 SendRejects (length (paymentCalls s))] s)
         \<and> \<not> isCompleting (run h [ClickNext, UpdateResolves (length (accountCalls s)),
                                   SendRejects (length (paymentCalls s))] s)"
proof -
  let ?u = "UpdateResolves (length (accountCalls s))"
  have e: "run h [ClickNext, ?u] s =
             s\<lparr>isCompleting := True, paymentCalls := paymentCalls s @ [pi_paymentRequest p]\<rparr>"
    by (rule click_then_update_resolves [OF assms])
  have r: "run h [ClickNext, ?u, ev] s = step h ev (run h [ClickNext, ?u] s)" for ev
    by simp
  have c: "\<not> isCompleted s"
    using assms(1) by (simp add: showsPaymentInfo_def)
  have 1: "isCompleted (sendResolved t) \<and> \<not> isCompleting (sendResolved t)
         \<and> \<not> isCompleting (sendRejected t) \<and> isCompleted (sendRejected t) = isCompleted t"
    by (simp add: sendResolved_def sendRejected_def)
  have 2: "paymentCalls (run h [ClickNext, ?u] s) = paymentCalls s @ [pi_paymentRequest p]"
    unfolding e by simp
  have 3: "isCompleted (run h [ClickNext, ?u, SendResolves (length (paymentCalls s))] s)
         \<and> \<not> isCompleting (run h [ClickNext, ?u, SendResolves (length (paymentCalls s))] s)"
    unfolding r e by (simp add: sendResolved_def)
  have 4: "\<not> isCompleted (run h [ClickNext, ?u, SendRejects (length (paymentCalls s))] s)
         \<and> \<not> isCompleting (run h [ClickNext, ?u, SendRejects (length (paymentCalls s))] s)"
    unfolding r e using c by (simp add: sendRejected_def)
  from 1 2 3 4 show ?thesis by blast
qed

text \<open>The end-to-end scenario, submitted: the payment is fulfilled, or it is rejected.\<close>

theorem send_settles_witness:
  "showsPaymentInfo quoted \<and> \<not> submitBlocked sampleHooks quoted
   \<and> p_bankAccount (data quoted) = Some sampleAccount
   \<and> paymentCalls (run sampleHooks [ClickNext, UpdateResolves 0] quoted) = [''pay:xyz'']
   \<and> isCompleted (run sampleHooks [ClickNext, UpdateResolves 0, SendResolves 0] quoted)
   \<and> \<not> isCompleting (run sampleHooks [ClickNext, UpdateResolves 0, SendResolves 0] quoted)
   \<and> \<not> isCompleted (run sampleHooks [ClickNext, UpdateResolves 0, SendRejects 0] quoted)
   \<and> \<not> isCompleting (run sampleHooks [ClickNext, UpdateResolves 0, SendRejects 0] quoted)"
proof -
  have l: "length (accountCalls quoted) = 0" "length (paymentCalls quoted) = 0"
    "paymentCalls quoted = []"
    by (simp_all add: quoted_eq)
  from send_settles [OF quoted_ready] quoted_ready(1,2,4) l
  show ?thesis by (simp del: run.simps)
qed

subsection \<open>An account update that fails\<close>

lemma completing_stays:
  assumes "isCompleting s" and "accountCalls s = []" and "paymentCalls s = []"
      and "\<forall>a. ev \<noteq> AssetProp a"
  shows "isCompleting (step h ev s) \<and> accountCalls (step h ev s) = []
         \<and> paymentCalls (step h ev s) = [] \<and> isCompleted (step h ev s) = isCompleted s"
proof (cases ev)
  case (AssetProp a)
  with assms(4) show ?thesis by simp
next
  case (SelectBankAccount b)
  with assms show ?thesis by (simp add: bankAccountEffect_def split: option.splits)
next
  case (SelectCurrency c)
  with assms show ?thesis by simp
next
  case (EnterAmount m)
  with assms show ?thesis by (simp add: whenAmountChanged_def amountEffect_def)
next
  case (WalletAddress w)
  with assms show ?thesis by simp
next
  case DebounceFire
  with assms show ?thesis
    by (simp add: debounceFire_def Let_def quoteEffect_def split: option.splits)
next
  case (QuoteResolves i sell)
  with assms show ?thesis
    by (cases "js_gt (minVolume sell) (q_amount (quoteCalls s ! i))")
       (simp_all add: quoteResolved_below quoteResolved_enough)
next
  case (QuoteRejects i err)
  with assms show ?thesis by (simp add: quoteRejected_def)
next
  case ClickNext
  with assms show ?thesis by (simp add: showsPaymentInfo_def)
next
  case (UpdateResolves i)
  with assms show ?thesis by simp
next
  case (UpdateRejects i)
  with assms show ?thesis by simp
next
  case (SendResolves i)
  with assms show ?thesis by simp
next
  case (SendRejects i)
  with assms show ?thesis by simp
qed

lemma completing_stays_run:
  assumes "isCompleting s" and "accountCalls s = []" and "paymentCalls s = []"
      and "\<forall>a. AssetProp a \<notin> set evs"
  shows "isCompleting (run h evs s) \<and> accountCalls (run h evs s) = []
         \<and> paymentCalls (run h evs s) = [] \<and> isCompleted (run h evs s) = isCompleted s"
  using assms
proof (induction evs arbitrary: s)
  case Nil
  then show ?case by simp
next
  case (Cons ev evs)
  from Cons.prems have n: "\<forall>a. ev \<noteq> AssetProp a" and m: "\<forall>a. AssetProp a \<notin> set evs"
    by auto
  note st = completing_stays [OF Cons.prems(1,2,3) n, of h]
  from Cons.IH [of "step h ev s"] st m show ?case by simp
qed

text \<open>
  C9. From a screen that shows the button and passes the guard, with a selected bank
  account, a click starts the account update; when that update is rejected the screen
  is completing and not completed, and no payment has been started. With no other
  submission in flight it stays so after any further events of the component, as long
  as the parent does not pass another asset: nothing the user does, and no timer or
  call that settles, leaves the completing phase or sends a payment.
\<close>

theorem update_rejection_stuck:
  assumes "showsPaymentInfo s" and "\<not> submitBlocked h s" and "paymentInfo s = Some p"
      and "p_bankAccount (data s) = Some b"
  shows "accountCalls (step h ClickNext s) \<noteq> []
         \<and> isCompleting (run h [ClickNext, UpdateRejects (length (accountCalls s))] s)
         \<and> \<not> isCompleted (run h [ClickNext, UpdateRejects (length (accountCalls s))] s)
         \<and> paymentCalls (run h [ClickNext, UpdateRejects (length (accountCalls s))] s)
             = paymentCalls s
         \<and> (accountCalls s = [] \<and> paymentCalls s = [] \<and> (\<forall>a. AssetProp a \<notin> set evs) \<longrightarrow>
              isCompleting (run h ([ClickNext, UpdateRejects 0] @ evs) s)
              \<and> \<not> isCompleted (run h ([ClickNext, UpdateRejects 0] @ evs) s)
              \<and> paymentCalls (run h ([ClickNext, UpdateRejects 0] @ evs) s) = [])"
proof -
  have e: "run h [ClickNext, UpdateRejects (length (accountCalls s))] s = s\<lparr>isCompleting := True\<rparr>"
    by (rule click_then_update_rejects [OF assms])
  from assms(1) have c: "\<not> isCompleted s" by (simp add: showsPaymentInfo_def)
  have 1: "accountCalls (step h ClickNext s) \<noteq> []"
    using assms(1) by (simp add: handleNext_submits [OF assms(2,3,4)])
  have 2: "isCompleting (run h [ClickNext, UpdateRejects (length (accountCalls s))] s)
         \<and> \<not> isCompleted (run h [ClickNext, UpdateRejects (length (accountCalls s))] s)
         \<and> paymentCalls (run h [ClickNext, UpdateRejects (length (accountCalls s))] s)
             = paymentCalls s"
    unfolding e using c by simp
  have 3: "accountCalls s = [] \<and> paymentCalls s = [] \<and> (\<forall>a. AssetProp a \<notin> set evs) \<longrightarrow>
           isCompleting (run h ([ClickNext, UpdateRejects 0] @ evs) s)
           \<and> \<not> isCompleted (run h ([ClickNext, UpdateRejects 0] @ evs) s)
           \<and> paymentCalls (run h ([ClickNext, UpdateRejects 0] @ evs) s) = []"
  proof
    assume a: "accountCalls s = [] \<and> paymentCalls s = [] \<and> (\<forall>a. AssetProp a \<notin> set evs)"
    have r: "run h ([ClickNext, UpdateRejects 0] @ evs) s
               = run h evs (run h [ClickNext, UpdateRejects (length (accountCalls s))] s)"
      using a by simp
    from a c completing_stays_run [of "s\<lparr>isCompleting := True\<rparr>" evs h]
    show "isCompleting (run h ([ClickNext, UpdateRejects 0] @ evs) s)
           \<and> \<not> isCompleted (run h ([ClickNext, UpdateRejects 0] @ evs) s)
           \<and> paymentCalls (run h ([ClickNext, UpdateRejects 0] @ evs) s) = []"
      unfolding r e by simp
  qed
  from 1 2 3 show ?thesis by blast
qed

text \<open>
  The end-to-end scenario, submitted, and the account update is rejected; afterwards the
  user types another amount, the timer fires and the button is clicked again.
\<close>

theorem update_rejection_stuck_witness:
  "showsPaymentInfo quoted \<and> \<not> submitBlocked sampleHooks quoted
   \<and> p_bankAccount (data quoted) = Some sampleAccount
   \<and> accountCalls (step sampleHooks ClickNext quoted) \<noteq> []
   \<and> isCompleting (run sampleHooks [ClickNext, UpdateRejects 0] quoted)
   \<and> \<not> isCompleted (run sampleHooks [ClickNext, UpdateRejects 0] quoted)
   \<and> paymentCalls (run sampleHooks [ClickNext, UpdateRejects 0] quoted) = []
   \<and> isCompleting
       (run sampleHooks
          ([ClickNext, UpdateRejects 0] @ [EnterAmount ''5'', DebounceFire, ClickNext]) quoted)"
proof -
  have l: "length (accountCalls quoted) = 0" "accountCalls quoted = []" "paymentCalls quoted = []"
    by (simp_all add: quoted_eq)
  have n: "\<forall>a. AssetProp a \<notin> set [EnterAmount ''5'', DebounceFire, ClickNext]" by simp
  from update_rejection_stuck [OF quoted_ready, of "[EnterAmount ''5'', DebounceFire, ClickNext]"]
       quoted_ready(1,2,4) l n
  show ?thesis by (simp del: run.simps)
qed

end
